theory Spec2Isabelle
  imports Main
begin

section \<open>Package message: the Message type and its validation\<close>

text \<open>
  Go strings are byte sequences and \<open>len\<close> counts bytes; \<open>string\<close> (a list of
  8-bit \<open>char\<close>) is the same thing, so \<open>length\<close> below is Go's \<open>len\<close>.
  The named type \<open>Type\<close> is a string; its four constants are string literals.
\<close>

type_synonym bytes = string

definition TypeChat :: string where "TypeChat = ''chat''"
definition TypeSystem :: string where "TypeSystem = ''system''"
definition TypeJoin :: string where "TypeJoin = ''join''"
definition TypeLeave :: string where "TypeLeave = ''leave''"

text \<open>
  A \<open>time.Time\<close> value is an instant together with the location it is displayed in.
  \<open>t.UTC()\<close> keeps the instant and sets the location to UTC.
\<close>

datatype Location = UTC | Local | FixedZone int

record Time =
  unixNano :: int
  loc :: Location

definition Time_UTC :: "Time \<Rightarrow> Time" where
  "Time_UTC t = t\<lparr>loc := UTC\<rparr>"

record Message =
  MessageID :: string
  RoomID :: string
  Type :: string
  UserID :: string
  Username :: string
  Content :: string
  Timestamp :: Time

definition MaxContentLength :: nat where "MaxContentLength = 1000"
definition MaxUsernameLength :: nat where "MaxUsernameLength = 50"

datatype error =
    ErrEmptyContent
  | ErrContentTooLong
  | ErrEmptyUsername
  | ErrUsernameTooLong
  | ErrInvalidType

text \<open>\<open>Validate\<close> returns \<open>None\<close> for Go's \<open>nil\<close> error, \<open>Some e\<close> for the violation.\<close>

definition Validate :: "Message \<Rightarrow> error option" where
  "Validate m =
     (if Type m \<noteq> TypeChat \<and> Type m \<noteq> TypeSystem \<and> Type m \<noteq> TypeJoin \<and> Type m \<noteq> TypeLeave
      then Some ErrInvalidType
      else if Username m = '''' then Some ErrEmptyUsername
      else if length (Username m) > MaxUsernameLength then Some ErrUsernameTooLong
      else if Type m = TypeChat then
        (if Content m = '''' then Some ErrEmptyContent
         else if length (Content m) > MaxContentLength then Some ErrContentTooLong
         else None)
      else None)"

text \<open>
  The constructors take the reading of the server clock (\<open>time.Now()\<close>) as an argument.
  The fields they do not set keep Go's zero value, the empty string.
\<close>

definition NewChatMessage :: "Time \<Rightarrow> string \<Rightarrow> string \<Rightarrow> string \<Rightarrow> Message" where
  "NewChatMessage now userID username content =
     \<lparr>MessageID = '''', RoomID = '''', Type = TypeChat, UserID = userID,
      Username = username, Content = content, Timestamp = Time_UTC now\<rparr>"

definition NewSystemMessage :: "Time \<Rightarrow> string \<Rightarrow> Message" where
  "NewSystemMessage now content =
     \<lparr>MessageID = '''', RoomID = '''', Type = TypeSystem, UserID = ''system'',
      Username = ''System'', Content = content, Timestamp = Time_UTC now\<rparr>"

section \<open>Package config\<close>

text \<open>
  The process environment is a finite map from names to values. \<open>os.Getenv\<close> returns
  the value of the variable, which is empty when the variable is not present.
\<close>

type_synonym environ = "string \<rightharpoonup> string"

definition Getenv :: "environ \<Rightarrow> string \<Rightarrow> string" where
  "Getenv env key = (case env key of None \<Rightarrow> '''' | Some v \<Rightarrow> v)"

record Config =
  Port :: string
  DynamoDBEndpoint :: string
  DynamoDBRegion :: string
  AWSAccessKey :: string
  AWSSecretKey :: string
  LogLevel :: string

definition getEnv :: "environ \<Rightarrow> string \<Rightarrow> string \<Rightarrow> string" where
  "getEnv env key defaultValue =
     (let v = Getenv env key in if v \<noteq> '''' then v else defaultValue)"

definition Load :: "environ \<Rightarrow> Config" where
  "Load env =
     \<lparr>Port = getEnv env ''PORT'' ''8080'',
      DynamoDBEndpoint = getEnv env ''DYNAMODB_ENDPOINT'' ''http://localhost:8000'',
      DynamoDBRegion = getEnv env ''DYNAMODB_REGION'' ''us-east-1'',
      AWSAccessKey = getEnv env ''AWS_ACCESS_KEY_ID'' ''dummy'',
      AWSSecretKey = getEnv env ''AWS_SECRET_ACCESS_KEY'' ''dummy'',
      LogLevel = getEnv env ''LOG_LEVEL'' ''info''\<rparr>"

section \<open>Go channels and the outcome of a call\<close>

text \<open>
  A call either returns, or blocks its goroutine on a channel operation that no other
  goroutine will complete, or panics. The two panics that channel operations raise are
  the only ones the modelled code can raise.
\<close>

datatype panic = SendOnClosedChannel | CloseOfClosedChannel

datatype 'a outcome = Returned 'a | Blocked | Panicked panic

text \<open>
  A buffered channel of byte slices: the pending elements in FIFO order (the head is
  received next), the capacity given to \<open>make\<close>, and whether \<open>close\<close> was called.
\<close>

record chan =
  buf :: "bytes list"
  cap :: nat
  closed :: bool

definition make_chan :: "nat \<Rightarrow> chan" where
  "make_chan n = \<lparr>buf = [], cap = n, closed = False\<rparr>"

text \<open>\<open>close(ch)\<close> panics on a channel that is already closed.\<close>

definition close_chan :: "chan \<Rightarrow> chan outcome" where
  "close_chan ch =
     (if closed ch then Panicked CloseOfClosedChannel else Returned (ch\<lparr>closed := True\<rparr>))"

text \<open>
  \<open>select { case ch <- x: default: }\<close>: a send on a closed channel panics (also inside
  a select with a default case); otherwise the element is appended when the buffer has
  room, and the default case runs, leaving the channel as it is, when the buffer is full.
\<close>

definition select_send_default :: "chan \<Rightarrow> bytes \<Rightarrow> chan outcome" where
  "select_send_default ch x =
     (if closed ch then Panicked SendOnClosedChannel
      else if length (buf ch) < cap ch then Returned (ch\<lparr>buf := buf ch @ [x]\<rparr>)
      else Returned ch)"

section \<open>Package client\<close>

definition sendBufferSize :: nat where "sendBufferSize = 256"

text \<open>
  The \<open>Client\<close> struct. The fields \<open>hub\<close>, \<open>conn\<close> and \<open>logger\<close> refer to
  collaborators: the calls the pump makes on the hub and on the connection are recorded
  as actions, log lines are left out. The field \<open>id\<close> is written \<open>id'\<close>.
\<close>

record Client =
  send :: chan
  id' :: string
  username :: string
  userID :: string

text \<open>\<open>generateID()\<close> reads the clock; its result is an argument here.\<close>

definition New :: "string \<Rightarrow> string \<Rightarrow> string \<Rightarrow> Client" where
  "New generatedID userID' username' =
     \<lparr>send = make_chan sendBufferSize, id' = generatedID,
      username = username', userID = userID'\<rparr>"

definition Client_Send :: "Client \<Rightarrow> bytes \<Rightarrow> Client outcome" where
  "Client_Send c data =
     (case select_send_default (send c) data of
        Returned ch \<Rightarrow> Returned (c\<lparr>send := ch\<rparr>)
      | Blocked \<Rightarrow> Blocked
      | Panicked p \<Rightarrow> Panicked p)"

definition Client_Close :: "Client \<Rightarrow> Client outcome" where
  "Client_Close c =
     (case close_chan (send c) of
        Returned ch \<Rightarrow> Returned (c\<lparr>send := ch\<rparr>)
      | Blocked \<Rightarrow> Blocked
      | Panicked p \<Rightarrow> Panicked p)"

definition Client_ID :: "Client \<Rightarrow> string" where
  "Client_ID c = id' c"

subsection \<open>The inbound pump\<close>

text \<open>
  \<open>encoding/json\<close> is a library: \<open>FromJSON\<close> and \<open>ToJSON\<close> are arguments of the
  pump, \<open>None\<close> standing for a returned error.

  The body of the read loop after a successful parse, up to the validation: the sender
  fields are overwritten with the connection's, then the message is validated. \<open>None\<close>
  is the \<open>continue\<close> after a failed validation.
\<close>

definition readPump_msg :: "Client \<Rightarrow> Message \<Rightarrow> Message option" where
  "readPump_msg c msg =
     (let msg' = msg\<lparr>UserID := userID c, Username := username c\<rparr> in
      case Validate msg' of
        Some err \<Rightarrow> None
      | None \<Rightarrow> Some msg')"

text \<open>
  One iteration of the loop on a frame that was read: the payload passed to
  \<open>hub.Broadcast\<close>, or \<open>None\<close> when the iteration ends in a \<open>continue\<close>.
\<close>

definition readPump_frame ::
  "(bytes \<Rightarrow> Message option) \<Rightarrow> (Message \<Rightarrow> bytes option) \<Rightarrow> Client \<Rightarrow> bytes \<Rightarrow> bytes option" where
  "readPump_frame FromJSON ToJSON c data =
     (case FromJSON data of
        None \<Rightarrow> None
      | Some msg \<Rightarrow>
          (case readPump_msg c msg of
             None \<Rightarrow> None
           | Some msg' \<Rightarrow> ToJSON msg'))"

text \<open>
  The results of the successive \<open>ReadMessage\<close> calls: a frame, or an error. The loop
  breaks at the first error; a list that ends without one stands for a connection whose
  next read fails.
\<close>

datatype read_result = Data bytes | ReadError

datatype pump_action = HubBroadcast bytes | HubUnregister | ConnClose

fun readPump_loop ::
  "(bytes \<Rightarrow> Message option) \<Rightarrow> (Message \<Rightarrow> bytes option) \<Rightarrow> Client \<Rightarrow> read_result list
     \<Rightarrow> pump_action list" where
  "readPump_loop FromJSON ToJSON c [] = []"
| "readPump_loop FromJSON ToJSON c (ReadError # rest) = []"
| "readPump_loop FromJSON ToJSON c (Data data # rest) =
     (case readPump_frame FromJSON ToJSON c data of
        None \<Rightarrow> readPump_loop FromJSON ToJSON c rest
      | Some jsonData \<Rightarrow> HubBroadcast jsonData # readPump_loop FromJSON ToJSON c rest)"

text \<open>The deferred calls run when the loop is left.\<close>

definition readPump ::
  "(bytes \<Rightarrow> Message option) \<Rightarrow> (Message \<Rightarrow> bytes option) \<Rightarrow> Client \<Rightarrow> read_result list
     \<Rightarrow> pump_action list" where
  "readPump FromJSON ToJSON c reads =
     readPump_loop FromJSON ToJSON c reads @ [HubUnregister, ConnClose]"

section \<open>Package hub\<close>

text \<open>
  A value of the interface type \<open>Client\<close> held by the hub is a pointer to a client
  object; \<open>ref\<close> is that pointer and the heap maps it to the object. An argument of type
  \<open>any\<close> either holds such a pointer or a value of a type without the three methods
  (or nothing at all), and the type assertion \<open>client.(Client)\<close> tells them apart.
\<close>

type_synonym ref = nat

datatype any = ClientValue ref | OtherValue string | NilValue

definition assert_Client :: "any \<Rightarrow> ref option" where
  "assert_Client x = (case x of ClientValue c \<Rightarrow> Some c | OtherValue v \<Rightarrow> None | NilValue \<Rightarrow> None)"

text \<open>
  The \<open>Hub\<close> struct: the membership map, the buffered broadcast channel and the
  \<open>done\<close> channel, of which only being closed matters. The channels \<open>register\<close> and
  \<open>unregister\<close> are unbuffered, so they hold nothing between a send and its receive.
\<close>

record Hub =
  clients :: "ref \<rightharpoonup> bool"
  broadcast :: chan
  done_closed :: bool

definition Hub_New :: Hub where
  "Hub_New = \<lparr>clients = Map.empty, broadcast = make_chan 256, done_closed = False\<rparr>"

text \<open>
  The whole state: the hub, whether the goroutine executing \<open>Run\<close> is in its loop or
  has returned, and the client objects.
\<close>

datatype goroutine = Running | Exited

record world =
  hub :: Hub
  loop :: goroutine
  heap :: "ref \<Rightarrow> Client"

text \<open>\<open>New\<close> followed by \<open>go hub.Run()\<close>.\<close>

definition started :: "(ref \<Rightarrow> Client) \<Rightarrow> world" where
  "started h = \<lparr>hub = Hub_New, loop = Running, heap = h\<rparr>"

definition ClientCount :: "world \<Rightarrow> nat" where
  "ClientCount w = card (dom (clients (hub w)))"

subsection \<open>The cases of the select in Run\<close>

definition Run_register :: "ref \<Rightarrow> world \<Rightarrow> world" where
  "Run_register client w = w\<lparr>hub := (hub w)\<lparr>clients := (clients (hub w))(client \<mapsto> True)\<rparr>\<rparr>"

definition Run_unregister :: "ref \<Rightarrow> world \<Rightarrow> world outcome" where
  "Run_unregister client w =
     (case clients (hub w) client of
        None \<Rightarrow> Returned w
      | Some ok \<Rightarrow>
          (case Client_Close (heap w client) of
             Returned c' \<Rightarrow>
               Returned (w\<lparr>hub := (hub w)\<lparr>clients := (clients (hub w))(client := None)\<rparr>,
                           heap := (heap w)(client := c')\<rparr>)
           | Blocked \<Rightarrow> Blocked
           | Panicked p \<Rightarrow> Panicked p))"

text \<open>
  The broadcast case receives the head of the broadcast buffer and calls \<open>Send\<close> on
  every member. Each call touches its own client only, so the order of the iteration
  does not show in the result; a panic in any call ends the program.
\<close>

definition Run_broadcast :: "world \<Rightarrow> world outcome" where
  "Run_broadcast w =
     (case buf (broadcast (hub w)) of
        [] \<Rightarrow> Blocked
      | message # pending \<Rightarrow>
          (if \<exists>client \<in> dom (clients (hub w)). closed (send (heap w client))
           then Panicked SendOnClosedChannel
           else Returned (w\<lparr>hub := (hub w)\<lparr>broadcast := (broadcast (hub w))\<lparr>buf := pending\<rparr>\<rparr>,
                            heap := (\<lambda>client.
                               if client \<in> dom (clients (hub w))
                               then (case Client_Send (heap w client) message of
                                       Returned c' \<Rightarrow> c' | Blocked \<Rightarrow> heap w client
                                     | Panicked p \<Rightarrow> heap w client)
                               else heap w client)\<rparr>)))"

text \<open>
  The done case closes every member, replaces the map by an empty one and returns from
  \<open>Run\<close>.
\<close>

definition Run_done :: "world \<Rightarrow> world outcome" where
  "Run_done w =
     (if \<exists>client \<in> dom (clients (hub w)). closed (send (heap w client))
      then Panicked CloseOfClosedChannel
      else Returned (w\<lparr>hub := (hub w)\<lparr>clients := Map.empty\<rparr>,
                       loop := Exited,
                       heap := (\<lambda>client.
                          if client \<in> dom (clients (hub w))
                          then (case Client_Close (heap w client) of
                                  Returned c' \<Rightarrow> c' | Blocked \<Rightarrow> heap w client
                                | Panicked p \<Rightarrow> heap w client)
                          else heap w client)\<rparr>))"

subsection \<open>The methods called from other goroutines\<close>

text \<open>
  A send on the unbuffered \<open>register\<close> or \<open>unregister\<close> channel completes when the
  loop of \<open>Run\<close> receives it, and the loop then executes the matching case; once
  \<open>Run\<close> has returned nothing receives, and the sender stays blocked.
\<close>

definition Hub_Register :: "any \<Rightarrow> world \<Rightarrow> world outcome" where
  "Hub_Register client w =
     (case assert_Client client of
        None \<Rightarrow> Returned w
      | Some c \<Rightarrow> (if loop w = Running then Returned (Run_register c w) else Blocked))"

definition Hub_Unregister :: "any \<Rightarrow> world \<Rightarrow> world outcome" where
  "Hub_Unregister client w =
     (case assert_Client client of
        None \<Rightarrow> Returned w
      | Some c \<Rightarrow> (if loop w = Running then Run_unregister c w else Blocked))"

text \<open>
  A send on the buffered \<open>broadcast\<close> channel returns at once while the buffer has
  room. On a full buffer it waits for the loop to receive the head; the loop does so
  while it runs, and never again after \<open>Run\<close> has returned.
\<close>

definition enqueue_broadcast :: "bytes \<Rightarrow> world \<Rightarrow> world" where
  "enqueue_broadcast message w =
     w\<lparr>hub := (hub w)\<lparr>broadcast :=
         (broadcast (hub w))\<lparr>buf := buf (broadcast (hub w)) @ [message]\<rparr>\<rparr>\<rparr>"

definition Hub_Broadcast :: "bytes \<Rightarrow> world \<Rightarrow> world outcome" where
  "Hub_Broadcast message w =
     (if length (buf (broadcast (hub w))) < cap (broadcast (hub w))
      then Returned (enqueue_broadcast message w)
      else if loop w = Running then
        (case Run_broadcast w of
           Returned w' \<Rightarrow> Returned (enqueue_broadcast message w')
         | Blocked \<Rightarrow> Blocked
         | Panicked p \<Rightarrow> Panicked p)
      else Blocked)"

text \<open>
  \<open>Shutdown\<close> closes \<open>done\<close>; a loop that is running then takes the done case.
\<close>

definition Hub_Shutdown :: "world \<Rightarrow> world outcome" where
  "Hub_Shutdown w =
     (if done_closed (hub w) then Panicked CloseOfClosedChannel
      else let w' = w\<lparr>hub := (hub w)\<lparr>done_closed := True\<rparr>\<rparr> in
           if loop w = Running then Run_done w' else Returned w')"

section \<open>Validation\<close>

text \<open>
  Claim C1. \<open>Validate\<close> checks the violations in a fixed order and returns the first one:
  invalid type unless the type is chat, system, join or leave; else empty username;
  else username longer than 50; else, for type chat only, empty content and then content
  longer than 1000; otherwise it accepts. A chat message with content of length 1001 is
  rejected, one with content of length 1000 (and an admissible username) is accepted, and
  a join message with empty content (and an admissible username) is accepted.
  Lengths are Go's \<open>len\<close>, the number of bytes of the string.
\<close>

theorem Validate_first_violation:
  "(Type m \<notin> {''chat'', ''system'', ''join'', ''leave''} \<longrightarrow> Validate m = Some ErrInvalidType)
   \<and> (Type m \<in> {''chat'', ''system'', ''join'', ''leave''} \<longrightarrow>
        (Username m = [] \<longrightarrow> Validate m = Some ErrEmptyUsername)
      \<and> (Username m \<noteq> [] \<and> 50 < length (Username m) \<longrightarrow> Validate m = Some ErrUsernameTooLong)
      \<and> (Username m \<noteq> [] \<and> length (Username m) \<le> 50 \<longrightarrow>
            (Type m = ''chat'' \<and> Content m = [] \<longrightarrow> Validate m = Some ErrEmptyContent)
          \<and> (Type m = ''chat'' \<and> Content m \<noteq> [] \<and> 1000 < length (Content m) \<longrightarrow>
                Validate m = Some ErrContentTooLong)
          \<and> (Type m = ''chat'' \<and> Content m \<noteq> [] \<and> length (Content m) \<le> 1000 \<longrightarrow>
                Validate m = None)
          \<and> (Type m \<noteq> ''chat'' \<longrightarrow> Validate m = None)))
   \<and> (Type m = ''chat'' \<and> length (Content m) = 1001 \<longrightarrow> Validate m \<noteq> None)
   \<and> (Type m = ''chat'' \<and> length (Content m) = 1000 \<and> Username m \<noteq> [] \<and> length (Username m) \<le> 50
        \<longrightarrow> Validate m = None)
   \<and> (Type m = ''join'' \<and> Content m = [] \<and> Username m \<noteq> [] \<and> length (Username m) \<le> 50
        \<longrightarrow> Validate m = None)"
  by (auto simp add: Validate_def TypeChat_def TypeSystem_def TypeJoin_def TypeLeave_def
        MaxContentLength_def MaxUsernameLength_def)

text \<open>
  Witness for C1: the theorem at seven messages, one for each outcome: chat content of
  1001 bytes, chat content of 1000 bytes, a join message with empty content, an unknown
  type, an empty username, a username of 51 bytes, and empty chat content.
\<close>

theorem Validate_first_violation_witness:
  "Validate (NewChatMessage \<lparr>unixNano = 0, loc = Local\<rparr> ''u1'' ''alice'' (replicate 1001 CHR ''a''))
     = Some ErrContentTooLong
   \<and> Validate (NewChatMessage \<lparr>unixNano = 0, loc = Local\<rparr> ''u1'' ''alice'' (replicate 1000 CHR ''a''))
     = None
   \<and> Validate \<lparr>MessageID = '''', RoomID = '''', Type = ''join'', UserID = ''u1'',
        Username = ''alice'', Content = '''', Timestamp = \<lparr>unixNano = 0, loc = UTC\<rparr>\<rparr> = None
   \<and> Validate \<lparr>MessageID = '''', RoomID = '''', Type = ''invalid'', UserID = ''u1'',
        Username = '''', Content = '''', Timestamp = \<lparr>unixNano = 0, loc = UTC\<rparr>\<rparr>
     = Some ErrInvalidType
   \<and> Validate (NewChatMessage \<lparr>unixNano = 0, loc = Local\<rparr> ''u1'' '''' '''') = Some ErrEmptyUsername
   \<and> Validate (NewChatMessage \<lparr>unixNano = 0, loc = Local\<rparr> ''u1'' (replicate 51 CHR ''a'') '''')
     = Some ErrUsernameTooLong
   \<and> Validate (NewChatMessage \<lparr>unixNano = 0, loc = Local\<rparr> ''u1'' ''alice'' '''') = Some ErrEmptyContent"
  using
    Validate_first_violation
      [of "NewChatMessage \<lparr>unixNano = 0, loc = Local\<rparr> ''u1'' ''alice'' (replicate 1001 CHR ''a'')"]
    Validate_first_violation
      [of "NewChatMessage \<lparr>unixNano = 0, loc = Local\<rparr> ''u1'' ''alice'' (replicate 1000 CHR ''a'')"]
    Validate_first_violation
      [of "\<lparr>MessageID = '''', RoomID = '''', Type = ''join'', UserID = ''u1'',
        Username = ''alice'', Content = '''', Timestamp = \<lparr>unixNano = 0, loc = UTC\<rparr>\<rparr>"]
    Validate_first_violation
      [of "\<lparr>MessageID = '''', RoomID = '''', Type = ''invalid'', UserID = ''u1'',
        Username = '''', Content = '''', Timestamp = \<lparr>unixNano = 0, loc = UTC\<rparr>\<rparr>"]
    Validate_first_violation [of "NewChatMessage \<lparr>unixNano = 0, loc = Local\<rparr> ''u1'' '''' ''''"]
    Validate_first_violation
      [of "NewChatMessage \<lparr>unixNano = 0, loc = Local\<rparr> ''u1'' (replicate 51 CHR ''a'') ''''"]
    Validate_first_violation [of "NewChatMessage \<lparr>unixNano = 0, loc = Local\<rparr> ''u1'' ''alice'' ''''"]
  by (simp add: NewChatMessage_def TypeChat_def)

section \<open>The inbound pump\<close>

lemma readPump_msg_fields:
  "readPump_msg c msg = Some msg' \<Longrightarrow>
     msg' = msg\<lparr>UserID := userID c, Username := username c\<rparr>"
  by (simp add: readPump_msg_def Let_def split: option.splits)

lemma readPump_frame_Some:
  "readPump_frame F T c data = Some p \<longleftrightarrow>
     (\<exists>msg. F data = Some msg
        \<and> Validate (msg\<lparr>UserID := userID c, Username := username c\<rparr>) = None
        \<and> T (msg\<lparr>UserID := userID c, Username := username c\<rparr>) = Some p)"
  by (auto simp add: readPump_frame_def readPump_msg_def Let_def split: option.splits)

lemma readPump_frame_None:
  "F data = None \<or> (\<exists>msg. F data = Some msg
        \<and> Validate (msg\<lparr>UserID := userID c, Username := username c\<rparr>) \<noteq> None)
   \<Longrightarrow> readPump_frame F T c data = None"
  by (auto simp add: readPump_frame_def readPump_msg_def Let_def split: option.splits)

lemma readPump_loop_source:
  "HubBroadcast p \<in> set (readPump_loop F T c reads)
     \<Longrightarrow> \<exists>data. Data data \<in> set reads \<and> readPump_frame F T c data = Some p"
proof (induction F T c reads rule: readPump_loop.induct)
  case (3 F T c data rest)
  then show ?case by (cases "readPump_frame F T c data") auto
qed simp_all

lemma readPump_loop_skip:
  "readPump_frame F T c data = None
     \<Longrightarrow> readPump_loop F T c (pre @ Data data # post) = readPump_loop F T c (pre @ post)"
proof (induction pre)
  case Nil
  then show ?case by simp
next
  case (Cons r pre)
  then show ?case by (cases r) (simp_all split: option.splits)
qed

lemma set_readPump:
  "HubBroadcast p \<in> set (readPump F T c reads)
     \<longleftrightarrow> HubBroadcast p \<in> set (readPump_loop F T c reads)"
  by (simp add: readPump_def)

lemma readPump_frame_identity:
  "F d1 = Some m1 \<Longrightarrow> F d2 = Some (m1\<lparr>UserID := u, Username := n\<rparr>)
     \<Longrightarrow> readPump_frame F T c d1 = readPump_frame F T c d2"
  by (simp add: readPump_frame_def readPump_msg_def)

lemma readPump_loop_identity:
  "list_all2 (\<lambda>r1 r2. r1 = r2 \<or> (\<exists>d1 d2 m u n. r1 = Data d1 \<and> r2 = Data d2
        \<and> F d1 = Some m \<and> F d2 = Some (m\<lparr>UserID := u, Username := n\<rparr>))) reads1 reads2
   \<Longrightarrow> readPump_loop F T c reads1 = readPump_loop F T c reads2"
proof (induction reads1 reads2 rule: list_all2_induct)
  case Nil
  then show ?case by simp
next
  case (Cons r1 rs1 r2 rs2)
  from Cons.hyps(1) show ?case
  proof
    assume "r1 = r2"
    with Cons.IH show ?thesis by (cases r2) (simp_all split: option.splits)
  next
    assume "\<exists>d1 d2 m u n. r1 = Data d1 \<and> r2 = Data d2
        \<and> F d1 = Some m \<and> F d2 = Some (m\<lparr>UserID := u, Username := n\<rparr>)"
    then obtain d1 d2 m u n where r: "r1 = Data d1" "r2 = Data d2"
      and f: "F d1 = Some m" "F d2 = Some (m\<lparr>UserID := u, Username := n\<rparr>)"
      by blast
    have "readPump_frame F T c d1 = readPump_frame F T c d2"
      using f by (rule readPump_frame_identity)
    with r Cons.IH show ?thesis by (simp split: option.splits)
  qed
qed

text \<open>
  Claim C2. Every payload the inbound pump hands to \<open>hub.Broadcast\<close> is the
  serialization of a message that \<open>Validate\<close> accepts: it comes from a frame that was
  read and parsed, carries the connection's sender fields, and passed validation in that
  form. A frame that fails to parse, or whose message (with the connection's sender
  fields, as the pump validates it) fails validation, is not broadcast: the iteration
  yields no payload, and the pump's calls are those of the run without that frame.
\<close>

theorem readPump_broadcasts_only_valid:
  "(HubBroadcast p \<in> set (readPump FromJSON ToJSON c reads) \<longrightarrow>
      (\<exists>data msg. Data data \<in> set reads \<and> FromJSON data = Some msg
         \<and> Validate (msg\<lparr>UserID := userID c, Username := username c\<rparr>) = None
         \<and> ToJSON (msg\<lparr>UserID := userID c, Username := username c\<rparr>) = Some p))
   \<and> (FromJSON data = None
        \<or> (\<exists>msg. FromJSON data = Some msg
              \<and> Validate (msg\<lparr>UserID := userID c, Username := username c\<rparr>) \<noteq> None)
      \<longrightarrow> readPump_frame FromJSON ToJSON c data = None
        \<and> readPump FromJSON ToJSON c (pre @ Data data # post)
            = readPump FromJSON ToJSON c (pre @ post))"
proof (intro conjI impI)
  assume "HubBroadcast p \<in> set (readPump FromJSON ToJSON c reads)"
  then obtain data where "Data data \<in> set reads" "readPump_frame FromJSON ToJSON c data = Some p"
    using readPump_loop_source set_readPump by blast
  then show "\<exists>data msg. Data data \<in> set reads \<and> FromJSON data = Some msg
         \<and> Validate (msg\<lparr>UserID := userID c, Username := username c\<rparr>) = None
         \<and> ToJSON (msg\<lparr>UserID := userID c, Username := username c\<rparr>) = Some p"
    using readPump_frame_Some by blast
next
  assume a: "FromJSON data = None
        \<or> (\<exists>msg. FromJSON data = Some msg
              \<and> Validate (msg\<lparr>UserID := userID c, Username := username c\<rparr>) \<noteq> None)"
  then show n: "readPump_frame FromJSON ToJSON c data = None"
    by (rule readPump_frame_None)
  then show "readPump FromJSON ToJSON c (pre @ Data data # post)
            = readPump FromJSON ToJSON c (pre @ post)"
    by (simp add: readPump_def readPump_loop_skip)
qed

text \<open>
  Witness for C2, on the connection of user \<open>u1\<close>, \<open>alice\<close>, with a parser that knows
  two frames (a chat message with content \<open>hi\<close> and one with empty content) and a
  serializer that returns the content. The frame with empty content parses and fails
  validation; it and the unparsable frame leave no trace in the pump's calls.
\<close>

theorem readPump_broadcasts_only_valid_witness:
  "HubBroadcast ''hi'' \<in> set (readPump
       (\<lambda>d. if d = ''f-chat'' then Some (NewChatMessage \<lparr>unixNano = 5, loc = Local\<rparr> ''x'' ''y'' ''hi'')
             else if d = ''f-empty'' then Some (NewChatMessage \<lparr>unixNano = 5, loc = Local\<rparr> ''x'' ''y'' '''')
             else None)
       (\<lambda>m. Some (Content m))
       (New ''client-1'' ''u1'' ''alice'')
       [Data ''garbage'', Data ''f-empty'', Data ''f-chat''])
   \<and> (\<exists>data msg. Data data \<in> set [Data ''garbage'', Data ''f-empty'', Data ''f-chat'']
         \<and> (if data = ''f-chat'' then Some (NewChatMessage \<lparr>unixNano = 5, loc = Local\<rparr> ''x'' ''y'' ''hi'')
             else if data = ''f-empty'' then Some (NewChatMessage \<lparr>unixNano = 5, loc = Local\<rparr> ''x'' ''y'' '''')
             else None) = Some msg
         \<and> Validate (msg\<lparr>UserID := ''u1'', Username := ''alice''\<rparr>) = None
         \<and> Some (Content (msg\<lparr>UserID := ''u1'', Username := ''alice''\<rparr>)) = Some ''hi'')
   \<and> Validate ((NewChatMessage \<lparr>unixNano = 5, loc = Local\<rparr> ''x'' ''y'' '''')
         \<lparr>UserID := ''u1'', Username := ''alice''\<rparr>) \<noteq> None
   \<and> readPump
       (\<lambda>d. if d = ''f-chat'' then Some (NewChatMessage \<lparr>unixNano = 5, loc = Local\<rparr> ''x'' ''y'' ''hi'')
             else if d = ''f-empty'' then Some (NewChatMessage \<lparr>unixNano = 5, loc = Local\<rparr> ''x'' ''y'' '''')
             else None)
       (\<lambda>m. Some (Content m))
       (New ''client-1'' ''u1'' ''alice'')
       ([Data ''f-chat'', Data ''garbage''] @ Data ''f-empty'' # [Data ''f-chat''])
     = [HubBroadcast ''hi'', HubBroadcast ''hi'', HubUnregister, ConnClose]"
  using readPump_broadcasts_only_valid
    [of "''hi''"
        "\<lambda>d. if d = ''f-chat'' then Some (NewChatMessage \<lparr>unixNano = 5, loc = Local\<rparr> ''x'' ''y'' ''hi'')
             else if d = ''f-empty'' then Some (NewChatMessage \<lparr>unixNano = 5, loc = Local\<rparr> ''x'' ''y'' '''')
             else None"
        "\<lambda>m. Some (Content m)"
        "New ''client-1'' ''u1'' ''alice''"
        "[Data ''garbage'', Data ''f-empty'', Data ''f-chat'']"
        "''f-empty''" "[Data ''f-chat'', Data ''garbage'']" "[Data ''f-chat'']"]
  by (simp add: readPump_def readPump_frame_def readPump_msg_def Validate_def New_def
        NewChatMessage_def TypeChat_def TypeSystem_def TypeJoin_def TypeLeave_def
        MaxContentLength_def MaxUsernameLength_def)

text \<open>
  The message behind a broadcast payload has the timestamp that was parsed from its frame:
  the pump has no clock among its inputs.
\<close>

lemma readPump_frame_timestamp:
  "readPump_frame F T c data = Some p \<Longrightarrow>
     \<exists>msg msg'. F data = Some msg \<and> readPump_msg c msg = Some msg' \<and> T msg' = Some p
       \<and> Timestamp msg' = Timestamp msg"
proof -
  assume a: "readPump_frame F T c data = Some p"
  then obtain msg where m: "F data = Some msg"
    by (auto simp add: readPump_frame_def split: option.splits)
  with a obtain msg' where m': "readPump_msg c msg = Some msg'" "T msg' = Some p"
    by (auto simp add: readPump_frame_def split: option.splits)
  from m'(1) have "msg' = msg\<lparr>UserID := userID c, Username := username c\<rparr>"
    by (rule readPump_msg_fields)
  then have "Timestamp msg' = Timestamp msg" by simp
  with m m' show ?thesis by blast
qed

text \<open>
  Claim C3 says that the timestamp of a broadcast message is assigned by the server, in
  UTC, and is never the one the frame supplied. The pump overwrites the two sender fields
  only, so the message it serializes keeps the timestamp that was parsed from the frame,
  whatever the server clock shows. Evaluated on the connection of \<open>u1\<close>, \<open>alice\<close> and a
  chat frame stamped 2000-01-01 in a zone five hours east of UTC: the accepted message
  carries that instant and that zone, while \<open>NewChatMessage\<close> on the same text stamps
  the server's clock reading, moved to UTC.
\<close>

theorem readPump_msg_keeps_frame_timestamp:
  "readPump_msg (New ''client-1'' ''u1'' ''alice'')
      \<lparr>MessageID = '''', RoomID = '''', Type = ''chat'', UserID = ''mallory'',
       Username = ''Mallory'', Content = ''hi'',
       Timestamp = \<lparr>unixNano = 946666800000000000, loc = FixedZone 18000\<rparr>\<rparr>
    = Some \<lparr>MessageID = '''', RoomID = '''', Type = ''chat'', UserID = ''u1'',
       Username = ''alice'', Content = ''hi'',
       Timestamp = \<lparr>unixNano = 946666800000000000, loc = FixedZone 18000\<rparr>\<rparr>
   \<and> Timestamp (NewChatMessage \<lparr>unixNano = 1793318400000000000, loc = Local\<rparr> ''u1'' ''alice'' ''hi'')
      = \<lparr>unixNano = 1793318400000000000, loc = UTC\<rparr>"
  by (simp add: readPump_msg_def Validate_def New_def NewChatMessage_def Time_UTC_def
        TypeChat_def TypeSystem_def TypeJoin_def TypeLeave_def
        MaxContentLength_def MaxUsernameLength_def)

text \<open>
  Claim C4. Two runs of the same connection's pump whose frames differ at most in the
  parsed \<open>userId\<close> and \<open>username\<close> fields make exactly the same calls, so the
  client-supplied identity has no influence on what is broadcast; and every broadcast
  payload is the serialization of a message whose sender fields are the ones the
  connection was created with.
\<close>

theorem readPump_identity_from_connection:
  "(list_all2 (\<lambda>r1 r2. r1 = r2 \<or> (\<exists>d1 d2 m u n. r1 = Data d1 \<and> r2 = Data d2
        \<and> FromJSON d1 = Some m \<and> FromJSON d2 = Some (m\<lparr>UserID := u, Username := n\<rparr>)))
        reads1 reads2
      \<longrightarrow> readPump FromJSON ToJSON c reads1 = readPump FromJSON ToJSON c reads2)
   \<and> (HubBroadcast p \<in> set (readPump FromJSON ToJSON c reads) \<longrightarrow>
        (\<exists>data msg. Data data \<in> set reads \<and> FromJSON data = Some msg
           \<and> ToJSON (msg\<lparr>UserID := userID c, Username := username c\<rparr>) = Some p))"
proof (intro conjI impI)
  assume "list_all2 (\<lambda>r1 r2. r1 = r2 \<or> (\<exists>d1 d2 m u n. r1 = Data d1 \<and> r2 = Data d2
        \<and> FromJSON d1 = Some m \<and> FromJSON d2 = Some (m\<lparr>UserID := u, Username := n\<rparr>)))
        reads1 reads2"
  then show "readPump FromJSON ToJSON c reads1 = readPump FromJSON ToJSON c reads2"
    by (simp add: readPump_def readPump_loop_identity)
next
  assume "HubBroadcast p \<in> set (readPump FromJSON ToJSON c reads)"
  then obtain data where "Data data \<in> set reads" "readPump_frame FromJSON ToJSON c data = Some p"
    using readPump_loop_source set_readPump by blast
  then show "\<exists>data msg. Data data \<in> set reads \<and> FromJSON data = Some msg
           \<and> ToJSON (msg\<lparr>UserID := userID c, Username := username c\<rparr>) = Some p"
    using readPump_frame_Some by blast
qed

text \<open>
  Witness for C4, on the connection of \<open>u1\<close>, \<open>alice\<close>: one frame claims to come from
  \<open>bob\<close>, the other from \<open>eve\<close>; the serializer shows the sender fields. Both runs
  broadcast the same payload, which names \<open>u1\<close> and \<open>alice\<close>.
\<close>

theorem readPump_identity_from_connection_witness:
  "list_all2 (\<lambda>r1 r2. r1 = r2 \<or> (\<exists>d1 d2 m u n. r1 = Data d1 \<and> r2 = Data d2
        \<and> (if d1 = ''as-bob'' then Some (NewChatMessage \<lparr>unixNano = 5, loc = Local\<rparr> ''bob'' ''Bob'' ''hi'')
            else if d1 = ''as-eve'' then Some (NewChatMessage \<lparr>unixNano = 5, loc = Local\<rparr> ''eve'' ''Eve'' ''hi'')
            else None) = Some m
        \<and> (if d2 = ''as-bob'' then Some (NewChatMessage \<lparr>unixNano = 5, loc = Local\<rparr> ''bob'' ''Bob'' ''hi'')
            else if d2 = ''as-eve'' then Some (NewChatMessage \<lparr>unixNano = 5, loc = Local\<rparr> ''eve'' ''Eve'' ''hi'')
            else None) = Some (m\<lparr>UserID := u, Username := n\<rparr>)))
        [Data ''as-bob''] [Data ''as-eve'']
   \<and> readPump
        (\<lambda>d. if d = ''as-bob'' then Some (NewChatMessage \<lparr>unixNano = 5, loc = Local\<rparr> ''bob'' ''Bob'' ''hi'')
            else if d = ''as-eve'' then Some (NewChatMessage \<lparr>unixNano = 5, loc = Local\<rparr> ''eve'' ''Eve'' ''hi'')
            else None)
        (\<lambda>m. Some (UserID m @ ''/'' @ Username m @ '': '' @ Content m))
        (New ''client-1'' ''u1'' ''alice'') [Data ''as-bob'']
     = readPump
        (\<lambda>d. if d = ''as-bob'' then Some (NewChatMessage \<lparr>unixNano = 5, loc = Local\<rparr> ''bob'' ''Bob'' ''hi'')
            else if d = ''as-eve'' then Some (NewChatMessage \<lparr>unixNano = 5, loc = Local\<rparr> ''eve'' ''Eve'' ''hi'')
            else None)
        (\<lambda>m. Some (UserID m @ ''/'' @ Username m @ '': '' @ Content m))
        (New ''client-1'' ''u1'' ''alice'') [Data ''as-eve'']
   \<and> HubBroadcast ''u1/alice: hi'' \<in> set (readPump
        (\<lambda>d. if d = ''as-bob'' then Some (NewChatMessage \<lparr>unixNano = 5, loc = Local\<rparr> ''bob'' ''Bob'' ''hi'')
            else if d = ''as-eve'' then Some (NewChatMessage \<lparr>unixNano = 5, loc = Local\<rparr> ''eve'' ''Eve'' ''hi'')
            else None)
        (\<lambda>m. Some (UserID m @ ''/'' @ Username m @ '': '' @ Content m))
        (New ''client-1'' ''u1'' ''alice'') [Data ''as-eve''])"
proof -
  let ?F = "\<lambda>d. if d = ''as-bob'' then Some (NewChatMessage \<lparr>unixNano = 5, loc = Local\<rparr> ''bob'' ''Bob'' ''hi'')
            else if d = ''as-eve'' then Some (NewChatMessage \<lparr>unixNano = 5, loc = Local\<rparr> ''eve'' ''Eve'' ''hi'')
            else None"
  let ?T = "\<lambda>m. Some (UserID m @ ''/'' @ Username m @ '': '' @ Content m)"
  let ?c = "New ''client-1'' ''u1'' ''alice''"
  have rel: "list_all2 (\<lambda>r1 r2. r1 = r2 \<or> (\<exists>d1 d2 m u n. r1 = Data d1 \<and> r2 = Data d2
        \<and> ?F d1 = Some m \<and> ?F d2 = Some (m\<lparr>UserID := u, Username := n\<rparr>)))
        [Data ''as-bob''] [Data ''as-eve'']"
    by (simp add: NewChatMessage_def)
  have mem: "HubBroadcast ''u1/alice: hi'' \<in> set (readPump ?F ?T ?c [Data ''as-eve''])"
    by (simp add: readPump_def readPump_frame_def readPump_msg_def Validate_def New_def
        NewChatMessage_def TypeChat_def TypeSystem_def TypeJoin_def TypeLeave_def
        MaxContentLength_def MaxUsernameLength_def)
  from rel mem
    readPump_identity_from_connection [of ?F "[Data ''as-bob'']" "[Data ''as-eve'']" ?T ?c
      "''u1/alice: hi''" "[Data ''as-eve'']"]
  show ?thesis by blast
qed

section \<open>The outbound queue\<close>

lemma New_open:
  "\<not> closed (send (New g u n))" "cap (send (New g u n)) = sendBufferSize"
  "buf (send (New g u n)) = []"
  by (simp_all add: New_def make_chan_def)

lemma Client_Send_keeps:
  "Client_Send c payload = Returned c'
     \<Longrightarrow> cap (send c') = cap (send c) \<and> closed (send c') = closed (send c)"
  by (auto simp add: Client_Send_def select_send_default_def split: if_splits)

text \<open>
  Claim C5. \<open>Send\<close> on a handle whose queue is open and has the capacity \<open>New\<close> gives
  it (256): with fewer than 256 payloads pending the payload is appended at the tail;
  with the queue full the call returns all the same (it does not block), the new payload
  is dropped and the handle, its queue included, is unchanged.
\<close>

theorem Client_Send_enqueue_or_drop:
  "\<not> closed (send c) \<Longrightarrow> cap (send c) = sendBufferSize \<Longrightarrow>
     (length (buf (send c)) < 256 \<longrightarrow>
        Client_Send c payload = Returned (c\<lparr>send := (send c)\<lparr>buf := buf (send c) @ [payload]\<rparr>\<rparr>))
   \<and> (256 \<le> length (buf (send c)) \<longrightarrow> Client_Send c payload = Returned c)"
  by (simp add: Client_Send_def select_send_default_def sendBufferSize_def)

text \<open>
  Witness for C5: a fresh handle takes the payload; the same handle with 256 payloads
  pending drops it and stays as it was.
\<close>

theorem Client_Send_enqueue_or_drop_witness:
  "\<not> closed (send (New ''client-1'' ''u1'' ''alice''))
   \<and> cap (send (New ''client-1'' ''u1'' ''alice'')) = sendBufferSize
   \<and> length (buf (send (New ''client-1'' ''u1'' ''alice''))) < 256
   \<and> Client_Send (New ''client-1'' ''u1'' ''alice'') ''m1''
       = Returned ((New ''client-1'' ''u1'' ''alice'')
           \<lparr>send := \<lparr>buf = [''m1''], cap = 256, closed = False\<rparr>\<rparr>)
   \<and> 256 \<le> length (buf (send ((New ''client-1'' ''u1'' ''alice'')
           \<lparr>send := \<lparr>buf = replicate 256 ''m0'', cap = 256, closed = False\<rparr>\<rparr>)))
   \<and> Client_Send ((New ''client-1'' ''u1'' ''alice'')
           \<lparr>send := \<lparr>buf = replicate 256 ''m0'', cap = 256, closed = False\<rparr>\<rparr>) ''m1''
       = Returned ((New ''client-1'' ''u1'' ''alice'')
           \<lparr>send := \<lparr>buf = replicate 256 ''m0'', cap = 256, closed = False\<rparr>\<rparr>)"
  using Client_Send_enqueue_or_drop [of "New ''client-1'' ''u1'' ''alice''" "''m1''"]
    Client_Send_enqueue_or_drop [of "(New ''client-1'' ''u1'' ''alice'')
           \<lparr>send := \<lparr>buf = replicate 256 ''m0'', cap = 256, closed = False\<rparr>\<rparr>" "''m1''"]
  by (simp add: New_def make_chan_def sendBufferSize_def)

section \<open>Termination of a handle\<close>

text \<open>
  The hub keeps the queue of every member open: it closes a handle in the step that
  removes it from the map. While that holds, the fan-out of a broadcast raises no panic;
  unregistering, the fan-out itself, and registering a handle whose queue is open
  preserve it.
\<close>

lemma Run_broadcast_no_panic:
  "\<forall>r \<in> dom (clients (hub w)). \<not> closed (send (heap w r)) \<Longrightarrow> Run_broadcast w \<noteq> Panicked p"
  by (auto simp add: Run_broadcast_def split: list.splits)

lemma Run_unregister_members_open:
  "\<forall>r \<in> dom (clients (hub w)). \<not> closed (send (heap w r)) \<Longrightarrow>
     \<exists>w'. Run_unregister c w = Returned w'
       \<and> (\<forall>r \<in> dom (clients (hub w')). \<not> closed (send (heap w' r)))"
  by (cases "clients (hub w) c")
    (auto simp add: Run_unregister_def Client_Close_def close_chan_def)

lemma Run_register_members_open:
  "\<forall>r \<in> dom (clients (hub w)). \<not> closed (send (heap w r)) \<Longrightarrow> \<not> closed (send (heap w c))
     \<Longrightarrow> \<forall>r \<in> dom (clients (hub (Run_register c w))).
           \<not> closed (send (heap (Run_register c w) r))"
  by (auto simp add: Run_register_def)

lemma Run_broadcast_members_open:
  "\<forall>r \<in> dom (clients (hub w)). \<not> closed (send (heap w r)) \<Longrightarrow> Run_broadcast w = Returned w'
     \<Longrightarrow> \<forall>r \<in> dom (clients (hub w')). \<not> closed (send (heap w' r))"
  by (auto simp add: Run_broadcast_def Client_Send_def select_send_default_def
        split: list.splits if_splits)

text \<open>
  Claim C6 says that a second call of \<open>Client.Close\<close> on a handle is a no-op that
  never panics. It is not: \<open>Close\<close> closes the send channel unconditionally, and the
  second close of a channel panics. On a fresh handle the first call returns the handle
  with its queue closed, the second one panics.
\<close>

theorem Client_Close_twice_panics:
  "Client_Close (New ''client-1'' ''u1'' ''alice'')
     = Returned ((New ''client-1'' ''u1'' ''alice'')\<lparr>send := \<lparr>buf = [], cap = 256, closed = True\<rparr>\<rparr>)
   \<and> Client_Close ((New ''client-1'' ''u1'' ''alice'')\<lparr>send := \<lparr>buf = [], cap = 256, closed = True\<rparr>\<rparr>)
     = Panicked CloseOfClosedChannel"
  by (simp add: Client_Close_def close_chan_def New_def make_chan_def sendBufferSize_def)

text \<open>
  \<open>Unregister\<close> after the loop has exited, in a state whose members are open, and
  \<open>Shutdown\<close> of a running hub whose members are open.
\<close>

lemma Hub_Unregister_exited:
  "loop w = Exited \<Longrightarrow> Hub_Unregister (ClientValue r) w = Blocked"
  by (simp add: Hub_Unregister_def assert_Client_def)

lemma Hub_Unregister_no_panic:
  "\<forall>m \<in> dom (clients (hub w)). \<not> closed (send (heap w m))
     \<Longrightarrow> Hub_Unregister x w \<noteq> Panicked p"
  by (auto simp add: Hub_Unregister_def Run_unregister_def Client_Close_def close_chan_def
        split: option.splits)

lemma Hub_Shutdown_closes_members:
  "loop w = Running \<Longrightarrow> \<not> done_closed (hub w)
     \<Longrightarrow> \<forall>m \<in> dom (clients (hub w)). \<not> closed (send (heap w m))
     \<Longrightarrow> \<exists>w'. Hub_Shutdown w = Returned w' \<and> loop w' = Exited \<and> clients (hub w') = Map.empty
           \<and> (\<forall>m \<in> dom (clients (hub w)). closed (send (heap w' m)))"
  by (auto simp add: Hub_Shutdown_def Run_done_def Let_def Client_Close_def close_chan_def)

text \<open>
  Claim C6, amended. \<open>Client.Close\<close> is to be called once: on an open handle it closes
  the queue (the pending payloads stay), and a further call on the result panics.
  Repeated termination is made safe by the hub, which calls \<open>Close\<close> on members
  only and removes each in the step that closes it.
  While the loop runs, \<open>Unregister\<close> of a member whose queue is open removes it from
  the map and closes it; \<open>Unregister\<close> of the same handle again, or of any handle that
  is not a member, returns with nothing changed and does not reach \<open>Close\<close>.
  Once the loop has exited, \<open>Unregister\<close> of a handle does not return: it blocks, with
  nothing changed, and does not reach \<open>Close\<close> either; this is what happens to a handle
  that \<open>Shutdown\<close> has closed (\<open>Shutdown\<close> of a running hub whose members are
  open closes each member, empties the map and exits). In no state whose members are open does
  \<open>Unregister\<close> panic.
\<close>

theorem Close_once_Unregister_guarded:
  "(\<not> closed (send c) \<longrightarrow>
      (\<exists>c'. Client_Close c = Returned c' \<and> closed (send c') \<and> buf (send c') = buf (send c)
         \<and> Client_Close c' = Panicked CloseOfClosedChannel))
   \<and> (loop w = Running \<and> clients (hub w) r \<noteq> None \<and> \<not> closed (send (heap w r)) \<longrightarrow>
      (\<exists>w'. Hub_Unregister (ClientValue r) w = Returned w'
         \<and> clients (hub w') = (clients (hub w))(r := None)
         \<and> closed (send (heap w' r))
         \<and> Hub_Unregister (ClientValue r) w' = Returned w'))
   \<and> (loop w = Running \<and> clients (hub w) r = None \<longrightarrow>
        Hub_Unregister (ClientValue r) w = Returned w)
   \<and> (loop w = Exited \<longrightarrow> Hub_Unregister (ClientValue r) w = Blocked)
   \<and> (loop w = Running \<and> \<not> done_closed (hub w) \<and> clients (hub w) r \<noteq> None
        \<and> (\<forall>m \<in> dom (clients (hub w)). \<not> closed (send (heap w m))) \<longrightarrow>
      (\<exists>w'. Hub_Shutdown w = Returned w' \<and> loop w' = Exited
         \<and> closed (send (heap w' r))
         \<and> clients (hub w') = Map.empty
         \<and> Hub_Unregister (ClientValue r) w' = Blocked))
   \<and> ((\<forall>m \<in> dom (clients (hub w)). \<not> closed (send (heap w m))) \<longrightarrow>
        Hub_Unregister x w \<noteq> Panicked p)"
proof (intro conjI impI)
  assume "\<not> closed (send c)"
  then show "\<exists>c'. Client_Close c = Returned c' \<and> closed (send c') \<and> buf (send c') = buf (send c)
         \<and> Client_Close c' = Panicked CloseOfClosedChannel"
    by (simp add: Client_Close_def close_chan_def)
next
  assume "loop w = Running \<and> clients (hub w) r \<noteq> None \<and> \<not> closed (send (heap w r))"
  then show "\<exists>w'. Hub_Unregister (ClientValue r) w = Returned w'
         \<and> clients (hub w') = (clients (hub w))(r := None)
         \<and> closed (send (heap w' r))
         \<and> Hub_Unregister (ClientValue r) w' = Returned w'"
    by (auto simp add: Client_Close_def close_chan_def Hub_Unregister_def Run_unregister_def
          assert_Client_def)
next
  assume "loop w = Running \<and> clients (hub w) r = None"
  then show "Hub_Unregister (ClientValue r) w = Returned w"
    by (simp add: Hub_Unregister_def Run_unregister_def assert_Client_def)
next
  assume "loop w = Exited"
  then show "Hub_Unregister (ClientValue r) w = Blocked"
    by (rule Hub_Unregister_exited)
next
  assume a: "loop w = Running \<and> \<not> done_closed (hub w) \<and> clients (hub w) r \<noteq> None
        \<and> (\<forall>m \<in> dom (clients (hub w)). \<not> closed (send (heap w m)))"
  then obtain w' where s: "Hub_Shutdown w = Returned w'" "loop w' = Exited"
      "clients (hub w') = Map.empty" "\<forall>m \<in> dom (clients (hub w)). closed (send (heap w' m))"
    using Hub_Shutdown_closes_members [of w] by blast
  from a have "r \<in> dom (clients (hub w))" by auto
  with s(4) have "closed (send (heap w' r))" by blast
  moreover from s(2) have "Hub_Unregister (ClientValue r) w' = Blocked"
    by (rule Hub_Unregister_exited)
  ultimately show "\<exists>w'. Hub_Shutdown w = Returned w' \<and> loop w' = Exited
         \<and> closed (send (heap w' r))
         \<and> clients (hub w') = Map.empty
         \<and> Hub_Unregister (ClientValue r) w' = Blocked"
    using s(1,2,3) by blast
next
  assume "\<forall>m \<in> dom (clients (hub w)). \<not> closed (send (heap w m))"
  then show "Hub_Unregister x w \<noteq> Panicked p"
    by (rule Hub_Unregister_no_panic)
qed

text \<open>
  Witness for the amended C6: a fresh handle, and a running hub in which handle 7 was
  registered. Unregistering 7 twice closes it once; unregistering it in a hub where it
  never was a member changes nothing; shutting the hub down closes 7 and a later
  \<open>Unregister\<close> of it blocks.
\<close>

theorem Close_once_Unregister_guarded_witness:
  "\<not> closed (send (New ''client-1'' ''u1'' ''alice''))
   \<and> (\<exists>c'. Client_Close (New ''client-1'' ''u1'' ''alice'') = Returned c' \<and> closed (send c')
         \<and> buf (send c') = buf (send (New ''client-1'' ''u1'' ''alice''))
         \<and> Client_Close c' = Panicked CloseOfClosedChannel)
   \<and> loop (Run_register 7 (started (\<lambda>r. New ''client-1'' ''u1'' ''alice''))) = Running
   \<and> clients (hub (Run_register 7 (started (\<lambda>r. New ''client-1'' ''u1'' ''alice'')))) 7 \<noteq> None
   \<and> (\<exists>w'. Hub_Unregister (ClientValue 7)
               (Run_register 7 (started (\<lambda>r. New ''client-1'' ''u1'' ''alice''))) = Returned w'
         \<and> clients (hub w')
             = (clients (hub (Run_register 7 (started (\<lambda>r. New ''client-1'' ''u1'' ''alice'')))))
                 (7 := None)
         \<and> closed (send (heap w' 7))
         \<and> Hub_Unregister (ClientValue 7) w' = Returned w')
   \<and> clients (hub (started (\<lambda>r. New ''client-1'' ''u1'' ''alice''))) 7 = None
   \<and> Hub_Unregister (ClientValue 7) (started (\<lambda>r. New ''client-1'' ''u1'' ''alice''))
        = Returned (started (\<lambda>r. New ''client-1'' ''u1'' ''alice''))
   \<and> \<not> done_closed (hub (Run_register 7 (started (\<lambda>r. New ''client-1'' ''u1'' ''alice''))))
   \<and> dom (clients (hub (Run_register 7 (started (\<lambda>r. New ''client-1'' ''u1'' ''alice''))))) = {7}
   \<and> \<not> closed (send (heap (Run_register 7 (started (\<lambda>r. New ''client-1'' ''u1'' ''alice''))) 7))
   \<and> (\<exists>w'. Hub_Shutdown (Run_register 7 (started (\<lambda>r. New ''client-1'' ''u1'' ''alice'')))
               = Returned w'
         \<and> loop w' = Exited
         \<and> closed (send (heap w' 7))
         \<and> clients (hub w') = Map.empty
         \<and> Hub_Unregister (ClientValue 7) w' = Blocked)
   \<and> Hub_Unregister (ClientValue 7)
        (Run_register 7 (started (\<lambda>r. New ''client-1'' ''u1'' ''alice''))) \<noteq> Panicked CloseOfClosedChannel"
proof -
  let ?h = "\<lambda>r::nat. New ''client-1'' ''u1'' ''alice''"
  let ?u = "Run_register 7 (started ?h)"
  have pre: "\<not> closed (send (New ''client-1'' ''u1'' ''alice''))" "loop ?u = Running"
      "clients (hub ?u) 7 \<noteq> None" "\<not> closed (send (heap ?u 7))"
      "\<not> done_closed (hub ?u)" "dom (clients (hub ?u)) = {7}"
      "clients (hub (started ?h)) 7 = None" "loop (started ?h) = Running"
    by (simp_all add: New_def make_chan_def Run_register_def started_def Hub_New_def)
  from pre(4,6) have mem: "\<forall>m \<in> dom (clients (hub ?u)). \<not> closed (send (heap ?u m))"
    by simp
  from pre mem
    Close_once_Unregister_guarded [of "New ''client-1'' ''u1'' ''alice''" ?u 7
      "ClientValue 7" CloseOfClosedChannel]
  have part: "(\<exists>c'. Client_Close (New ''client-1'' ''u1'' ''alice'') = Returned c' \<and> closed (send c')
         \<and> buf (send c') = buf (send (New ''client-1'' ''u1'' ''alice''))
         \<and> Client_Close c' = Panicked CloseOfClosedChannel)"
    "(\<exists>w'. Hub_Unregister (ClientValue 7) ?u = Returned w'
         \<and> clients (hub w') = (clients (hub ?u))(7 := None)
         \<and> closed (send (heap w' 7))
         \<and> Hub_Unregister (ClientValue 7) w' = Returned w')"
    "(\<exists>w'. Hub_Shutdown ?u = Returned w' \<and> loop w' = Exited
         \<and> closed (send (heap w' 7))
         \<and> clients (hub w') = Map.empty
         \<and> Hub_Unregister (ClientValue 7) w' = Blocked)"
    "Hub_Unregister (ClientValue 7) ?u \<noteq> Panicked CloseOfClosedChannel"
    by blast+
  from pre(7,8) Close_once_Unregister_guarded [of "New ''client-1'' ''u1'' ''alice''"
      "started ?h" 7 "ClientValue 7" CloseOfClosedChannel]
  have non: "Hub_Unregister (ClientValue 7) (started ?h) = Returned (started ?h)"
    by blast
  from pre part non show ?thesis by blast
qed

section \<open>The hub after Shutdown\<close>

lemma Hub_Shutdown_takes_effect:
  "loop w = Running \<Longrightarrow> Hub_Shutdown w = Returned w'
     \<Longrightarrow> loop w' = Exited \<and> clients (hub w') = Map.empty \<and> done_closed (hub w')"
  by (auto simp add: Hub_Shutdown_def Run_done_def Let_def split: if_splits)

text \<open>
  Claim C7 says that after \<open>Shutdown\<close> has taken effect a call of \<open>Register\<close> is a
  no-op that does not leave its caller blocked. It does: \<open>Register\<close> has no case for
  a hub that has shut down, so it sends on the unbuffered \<open>register\<close> channel, from which
  nothing receives once \<open>Run\<close> has returned. On a hub that was started and shut down,
  \<open>Register\<close> with a handle blocks.
\<close>

theorem Register_after_Shutdown_blocks:
  "Hub_Shutdown (started (\<lambda>r. New ''client-1'' ''u1'' ''alice''))
     = Returned \<lparr>hub = \<lparr>clients = Map.empty, broadcast = \<lparr>buf = [], cap = 256, closed = False\<rparr>,
                        done_closed = True\<rparr>,
                 loop = Exited, heap = (\<lambda>r. New ''client-1'' ''u1'' ''alice'')\<rparr>
   \<and> Hub_Register (ClientValue 2)
        \<lparr>hub = \<lparr>clients = Map.empty, broadcast = \<lparr>buf = [], cap = 256, closed = False\<rparr>,
                done_closed = True\<rparr>,
         loop = Exited, heap = (\<lambda>r. New ''client-1'' ''u1'' ''alice'')\<rparr> = Blocked"
  by (simp add: Hub_Shutdown_def Run_done_def started_def Hub_New_def make_chan_def
        Hub_Register_def assert_Client_def)

text \<open>
  Claim C7, amended. \<open>Shutdown\<close> of a running hub, when it returns, leaves the loop
  exited and the membership map empty. From then on \<open>Register\<close> and \<open>Broadcast\<close>
  never panic and never change the membership map, but they are not no-ops for the
  caller: \<open>Register\<close> with a handle blocks, and \<open>Broadcast\<close> stores the payload in
  the hub's broadcast buffer (of capacity 256 in a hub made by \<open>New\<close>), which nothing
  drains any more, and blocks once the buffer is full. The loop stays exited, so a
  blocked caller is never released.
\<close>

theorem after_Shutdown_Register_Broadcast:
  "(loop w0 = Running \<and> Hub_Shutdown w0 = Returned w \<longrightarrow>
      loop w = Exited \<and> clients (hub w) = Map.empty)
   \<and> (loop w = Exited \<longrightarrow>
        Hub_Register (ClientValue c) w = Blocked
      \<and> Hub_Broadcast message w =
          (if length (buf (broadcast (hub w))) < cap (broadcast (hub w))
           then Returned (enqueue_broadcast message w) else Blocked)
      \<and> clients (hub (enqueue_broadcast message w)) = clients (hub w)
      \<and> loop (enqueue_broadcast message w) = Exited
      \<and> length (buf (broadcast (hub (enqueue_broadcast message w))))
          = Suc (length (buf (broadcast (hub w))))
      \<and> Hub_Register x w \<noteq> Panicked p \<and> Hub_Broadcast message w \<noteq> Panicked p)
   \<and> cap (broadcast Hub_New) = 256"
  using Hub_Shutdown_takes_effect [of w0 w]
  by (auto simp add: Hub_Register_def Hub_Broadcast_def assert_Client_def enqueue_broadcast_def
        Hub_New_def make_chan_def split: any.splits)

text \<open>
  Witness for the amended C7: a running hub with handle 7 registered is shut down, which
  closes the handle and empties the map; afterwards \<open>Register\<close> of handle 8 blocks, a
  first \<open>Broadcast\<close> is stored in the buffer, and a \<open>Broadcast\<close> on a full buffer blocks.
\<close>

theorem after_Shutdown_Register_Broadcast_witness:
  "loop (Run_register 7 (started (\<lambda>r. New ''client-1'' ''u1'' ''alice''))) = Running
   \<and> Hub_Shutdown (Run_register 7 (started (\<lambda>r. New ''client-1'' ''u1'' ''alice'')))
       = Returned \<lparr>hub = \<lparr>clients = Map.empty, broadcast = make_chan 256, done_closed = True\<rparr>,
                   loop = Exited,
                   heap = (\<lambda>r. New ''client-1'' ''u1'' ''alice'')
                     (7 := (New ''client-1'' ''u1'' ''alice'')
                             \<lparr>send := \<lparr>buf = [], cap = 256, closed = True\<rparr>\<rparr>)\<rparr>
   \<and> Hub_Register (ClientValue 8)
        \<lparr>hub = \<lparr>clients = Map.empty, broadcast = make_chan 256, done_closed = True\<rparr>,
         loop = Exited,
         heap = (\<lambda>r. New ''client-1'' ''u1'' ''alice'')
           (7 := (New ''client-1'' ''u1'' ''alice'')
                   \<lparr>send := \<lparr>buf = [], cap = 256, closed = True\<rparr>\<rparr>)\<rparr>
       = Blocked
   \<and> Hub_Broadcast ''late''
        \<lparr>hub = \<lparr>clients = Map.empty, broadcast = make_chan 256, done_closed = True\<rparr>,
         loop = Exited,
         heap = (\<lambda>r. New ''client-1'' ''u1'' ''alice'')
           (7 := (New ''client-1'' ''u1'' ''alice'')
                   \<lparr>send := \<lparr>buf = [], cap = 256, closed = True\<rparr>\<rparr>)\<rparr>
       = Returned
        \<lparr>hub = \<lparr>clients = Map.empty, broadcast = \<lparr>buf = [''late''], cap = 256, closed = False\<rparr>,
                done_closed = True\<rparr>,
         loop = Exited,
         heap = (\<lambda>r. New ''client-1'' ''u1'' ''alice'')
           (7 := (New ''client-1'' ''u1'' ''alice'')
                   \<lparr>send := \<lparr>buf = [], cap = 256, closed = True\<rparr>\<rparr>)\<rparr>
   \<and> Hub_Broadcast ''late''
        \<lparr>hub = \<lparr>clients = Map.empty,
                broadcast = \<lparr>buf = replicate 256 ''pending'', cap = 256, closed = False\<rparr>,
                done_closed = True\<rparr>,
         loop = Exited, heap = (\<lambda>r. New ''client-1'' ''u1'' ''alice'')\<rparr>
       = Blocked"
proof -
  let ?h = "\<lambda>r::nat. New ''client-1'' ''u1'' ''alice''"
  let ?u = "Run_register 7 (started ?h)"
  let ?v = "\<lparr>hub = \<lparr>clients = Map.empty, broadcast = make_chan 256, done_closed = True\<rparr>,
             loop = Exited,
             heap = ?h (7 := (New ''client-1'' ''u1'' ''alice'')
                               \<lparr>send := \<lparr>buf = [], cap = 256, closed = True\<rparr>\<rparr>)\<rparr>"
  let ?full = "\<lparr>hub = \<lparr>clients = Map.empty,
                broadcast = \<lparr>buf = replicate 256 ''pending'', cap = 256, closed = False\<rparr>,
                done_closed = True\<rparr>,
         loop = Exited, heap = ?h\<rparr>"
  have run: "loop ?u = Running"
    by (simp add: Run_register_def started_def)
  have shut: "Hub_Shutdown ?u = Returned ?v"
    by (simp add: Hub_Shutdown_def Run_done_def Run_register_def started_def Hub_New_def
          Client_Close_def close_chan_def New_def make_chan_def sendBufferSize_def fun_eq_iff
          Let_def)
  have ex: "loop ?v = Exited" "loop ?full = Exited" by simp_all
  from run shut ex after_Shutdown_Register_Broadcast [of ?u ?v 8 "''late''"]
    after_Shutdown_Register_Broadcast [of ?u ?full 8 "''late''"]
  show ?thesis
    by (simp add: enqueue_broadcast_def make_chan_def)
qed

section \<open>Registration\<close>

text \<open>
  Claim C8. Registering is idempotent: processing a register request for the same handle
  twice gives the very state that processing it once gives, with the same member count;
  registering a handle that is already a member leaves the set of members and the count
  unchanged (the whole state, when the handle's marker is \<open>true\<close>, the only value the
  hub stores). Through \<open>Hub.Register\<close> on a running hub, both calls return, the second
  one without changing anything. The members are the keys of a map, so none is held twice.
\<close>

theorem register_idempotent:
  "Run_register c (Run_register c w) = Run_register c w
   \<and> ClientCount (Run_register c (Run_register c w)) = ClientCount (Run_register c w)
   \<and> (c \<in> dom (clients (hub w)) \<longrightarrow>
        dom (clients (hub (Run_register c w))) = dom (clients (hub w))
      \<and> ClientCount (Run_register c w) = ClientCount w)
   \<and> (clients (hub w) c = Some True \<longrightarrow> Run_register c w = w)
   \<and> (loop w = Running \<longrightarrow>
        Hub_Register (ClientValue c) w = Returned (Run_register c w)
      \<and> Hub_Register (ClientValue c) (Run_register c w) = Returned (Run_register c w))"
  by (auto simp add: Run_register_def ClientCount_def Hub_Register_def assert_Client_def
        insert_absorb fun_upd_idem)

text \<open>
  Witness for C8: in a running hub where handle 7 is registered, registering it again
  returns the same state, and the count is 1 before and after.
\<close>

theorem register_idempotent_witness:
  "7 \<in> dom (clients (hub (Run_register 7 (started (\<lambda>r. New ''client-1'' ''u1'' ''alice'')))))
   \<and> clients (hub (Run_register 7 (started (\<lambda>r. New ''client-1'' ''u1'' ''alice'')))) 7 = Some True
   \<and> loop (Run_register 7 (started (\<lambda>r. New ''client-1'' ''u1'' ''alice''))) = Running
   \<and> ClientCount (Run_register 7 (started (\<lambda>r. New ''client-1'' ''u1'' ''alice''))) = 1
   \<and> ClientCount (Run_register 7 (Run_register 7 (started (\<lambda>r. New ''client-1'' ''u1'' ''alice''))))
       = 1
   \<and> Hub_Register (ClientValue 7) (Run_register 7 (started (\<lambda>r. New ''client-1'' ''u1'' ''alice'')))
       = Returned (Run_register 7 (started (\<lambda>r. New ''client-1'' ''u1'' ''alice'')))"
proof -
  let ?w = "Run_register 7 (started (\<lambda>r. New ''client-1'' ''u1'' ''alice''))"
  have a: "7 \<in> dom (clients (hub ?w))" "clients (hub ?w) 7 = Some True" "loop ?w = Running"
    by (simp_all add: Run_register_def started_def)
  have n: "ClientCount ?w = 1"
    by (simp add: ClientCount_def Run_register_def started_def Hub_New_def)
  from a n register_idempotent [of 7 ?w] show ?thesis by simp
qed

text \<open>
  Claim C9. \<open>Register\<close> and \<open>Unregister\<close> called with an argument that is not a
  \<open>Client\<close> return at once and leave the whole state as it is, whatever that state:
  nothing is sent to the loop (a request to a loop that has exited would block), the
  membership is unchanged, and there is no panic.
\<close>

theorem Register_Unregister_non_client:
  "assert_Client x = None \<Longrightarrow> Hub_Register x w = Returned w \<and> Hub_Unregister x w = Returned w"
  by (simp add: Hub_Register_def Hub_Unregister_def)

text \<open>
  Witness for C9: a string on a running hub, and a nil interface value on a hub whose
  loop has exited.
\<close>

theorem Register_Unregister_non_client_witness:
  "assert_Client (OtherValue ''not a client'') = None
   \<and> Hub_Register (OtherValue ''not a client'') (started (\<lambda>r. New ''client-1'' ''u1'' ''alice''))
       = Returned (started (\<lambda>r. New ''client-1'' ''u1'' ''alice''))
   \<and> Hub_Unregister (OtherValue ''not a client'') (started (\<lambda>r. New ''client-1'' ''u1'' ''alice''))
       = Returned (started (\<lambda>r. New ''client-1'' ''u1'' ''alice''))
   \<and> assert_Client NilValue = None
   \<and> Hub_Register NilValue ((started (\<lambda>r. New ''client-1'' ''u1'' ''alice''))\<lparr>loop := Exited\<rparr>)
       = Returned ((started (\<lambda>r. New ''client-1'' ''u1'' ''alice''))\<lparr>loop := Exited\<rparr>)
   \<and> Hub_Unregister NilValue ((started (\<lambda>r. New ''client-1'' ''u1'' ''alice''))\<lparr>loop := Exited\<rparr>)
       = Returned ((started (\<lambda>r. New ''client-1'' ''u1'' ''alice''))\<lparr>loop := Exited\<rparr>)"
  using
    Register_Unregister_non_client [of "OtherValue ''not a client''"
      "started (\<lambda>r. New ''client-1'' ''u1'' ''alice'')"]
    Register_Unregister_non_client [of NilValue
      "(started (\<lambda>r. New ''client-1'' ''u1'' ''alice''))\<lparr>loop := Exited\<rparr>"]
  by (simp add: assert_Client_def)

section \<open>Configuration\<close>

lemma getEnv_cases:
  "getEnv env key d = (if env key = None \<or> env key = Some '''' then d else the (env key))"
  by (cases "env key") (simp_all add: getEnv_def Getenv_def)

text \<open>
  Claim C10. \<open>getEnv\<close> returns the default when the variable is unset and also when it
  is set to the empty string, and returns any non-empty value as it is; \<open>Load\<close> fills
  each of its six fields that way, from its own variable and default.
\<close>

theorem getEnv_empty_is_unset:
  "(env key = None \<or> env key = Some '''' \<longrightarrow> getEnv env key d = d)
   \<and> (env key = Some v \<and> v \<noteq> '''' \<longrightarrow> getEnv env key d = v)
   \<and> Load env =
       \<lparr>Port = (if env ''PORT'' = None \<or> env ''PORT'' = Some '''' then ''8080''
                else the (env ''PORT'')),
        DynamoDBEndpoint =
          (if env ''DYNAMODB_ENDPOINT'' = None \<or> env ''DYNAMODB_ENDPOINT'' = Some ''''
           then ''http://localhost:8000'' else the (env ''DYNAMODB_ENDPOINT'')),
        DynamoDBRegion =
          (if env ''DYNAMODB_REGION'' = None \<or> env ''DYNAMODB_REGION'' = Some ''''
           then ''us-east-1'' else the (env ''DYNAMODB_REGION'')),
        AWSAccessKey =
          (if env ''AWS_ACCESS_KEY_ID'' = None \<or> env ''AWS_ACCESS_KEY_ID'' = Some ''''
           then ''dummy'' else the (env ''AWS_ACCESS_KEY_ID'')),
        AWSSecretKey =
          (if env ''AWS_SECRET_ACCESS_KEY'' = None \<or> env ''AWS_SECRET_ACCESS_KEY'' = Some ''''
           then ''dummy'' else the (env ''AWS_SECRET_ACCESS_KEY'')),
        LogLevel = (if env ''LOG_LEVEL'' = None \<or> env ''LOG_LEVEL'' = Some '''' then ''info''
                    else the (env ''LOG_LEVEL''))\<rparr>"
proof (intro conjI impI)
  assume "env key = None \<or> env key = Some ''''"
  then show "getEnv env key d = d" by (auto simp add: getEnv_def Getenv_def)
next
  assume "env key = Some v \<and> v \<noteq> ''''"
  then show "getEnv env key d = v" by (simp add: getEnv_def Getenv_def)
next
  show "Load env =
       \<lparr>Port = (if env ''PORT'' = None \<or> env ''PORT'' = Some '''' then ''8080''
                else the (env ''PORT'')),
        DynamoDBEndpoint =
          (if env ''DYNAMODB_ENDPOINT'' = None \<or> env ''DYNAMODB_ENDPOINT'' = Some ''''
           then ''http://localhost:8000'' else the (env ''DYNAMODB_ENDPOINT'')),
        DynamoDBRegion =
          (if env ''DYNAMODB_REGION'' = None \<or> env ''DYNAMODB_REGION'' = Some ''''
           then ''us-east-1'' else the (env ''DYNAMODB_REGION'')),
        AWSAccessKey =
          (if env ''AWS_ACCESS_KEY_ID'' = None \<or> env ''AWS_ACCESS_KEY_ID'' = Some ''''
           then ''dummy'' else the (env ''AWS_ACCESS_KEY_ID'')),
        AWSSecretKey =
          (if env ''AWS_SECRET_ACCESS_KEY'' = None \<or> env ''AWS_SECRET_ACCESS_KEY'' = Some ''''
           then ''dummy'' else the (env ''AWS_SECRET_ACCESS_KEY'')),
        LogLevel = (if env ''LOG_LEVEL'' = None \<or> env ''LOG_LEVEL'' = Some '''' then ''info''
                    else the (env ''LOG_LEVEL''))\<rparr>"
    unfolding Load_def getEnv_cases ..
qed

text \<open>
  Witness for C10: \<open>PORT\<close> is set to the empty string, \<open>LOG_LEVEL\<close> to \<open>debug\<close>, and
  nothing else is set.
\<close>

theorem getEnv_empty_is_unset_witness:
  "[''PORT'' \<mapsto> '''', ''LOG_LEVEL'' \<mapsto> ''debug''] ''PORT'' = Some ''''
   \<and> getEnv [''PORT'' \<mapsto> '''', ''LOG_LEVEL'' \<mapsto> ''debug''] ''PORT'' ''8080'' = ''8080''
   \<and> [''PORT'' \<mapsto> '''', ''LOG_LEVEL'' \<mapsto> ''debug''] ''MISSING_VAR'' = None
   \<and> getEnv [''PORT'' \<mapsto> '''', ''LOG_LEVEL'' \<mapsto> ''debug''] ''MISSING_VAR'' ''default-value''
       = ''default-value''
   \<and> [''PORT'' \<mapsto> '''', ''LOG_LEVEL'' \<mapsto> ''debug''] ''LOG_LEVEL'' = Some ''debug''
   \<and> getEnv [''PORT'' \<mapsto> '''', ''LOG_LEVEL'' \<mapsto> ''debug''] ''LOG_LEVEL'' ''info'' = ''debug''
   \<and> Load [''PORT'' \<mapsto> '''', ''LOG_LEVEL'' \<mapsto> ''debug'']
       = \<lparr>Port = ''8080'', DynamoDBEndpoint = ''http://localhost:8000'',
          DynamoDBRegion = ''us-east-1'', AWSAccessKey = ''dummy'', AWSSecretKey = ''dummy'',
          LogLevel = ''debug''\<rparr>"
  using
    getEnv_empty_is_unset [of "[''PORT'' \<mapsto> '''', ''LOG_LEVEL'' \<mapsto> ''debug'']" "''PORT''"
      "''8080''" "''x''"]
    getEnv_empty_is_unset [of "[''PORT'' \<mapsto> '''', ''LOG_LEVEL'' \<mapsto> ''debug'']" "''MISSING_VAR''"
      "''default-value''" "''x''"]
    getEnv_empty_is_unset [of "[''PORT'' \<mapsto> '''', ''LOG_LEVEL'' \<mapsto> ''debug'']" "''LOG_LEVEL''"
      "''info''" "''debug''"]
  by simp

end
